theory Spec2Isabelle
  imports Main "HOL-Library.Char_ord" "HOL-Library.List_Lexorder"
begin

section \<open>The string set of \<open>main.go\<close>\<close>

text \<open>
  A panic carries the value given to \<^verbatim>\<open>panic\<close>. The run-time panics are
  \<open>NilDereference\<close>, of a nil pointer dereference, and \<open>NilMapAssignment\<close>, of an
  assignment to an entry of a nil map.
\<close>

type_synonym error = string

datatype panic = PanicError error | PanicString string | NilDereference | NilMapAssignment

text \<open>
  \<^verbatim>\<open>type stringset map[string]struct{}\<close> (line 125): a Go map from strings to the
  empty struct. \<open>None\<close> is the nil map, the zero value of the type; \<open>Some m\<close> is a map
  that has been made, a partial function to \<open>unit\<close>. \<open>keys\<close> is the set of keys; the nil
  map has none. Go strings are byte sequences compared bytewise, which is the
  lexicographic order of \<open>char list\<close> with characters ordered by their code.
\<close>

type_synonym stringset = "(string \<rightharpoonup> unit) option"

definition keys :: "stringset \<Rightarrow> string set" where
  "keys ss = (case ss of None \<Rightarrow> {} | Some m \<Rightarrow> dom m)"

text \<open>
  \<^verbatim>\<open>func (ss stringset) Set(value string) error\<close> (lines 127-130): the assignment
  \<^verbatim>\<open>ss[value] = struct{}{}\<close> panics on the nil map; on a map that has been made it
  stores the key in place, and the method returns the nil error. The model returns the
  panic, or the map after the call and the error (\<open>None\<close> is nil).
\<close>

definition Set :: "stringset \<Rightarrow> string \<Rightarrow> panic + stringset \<times> error option" where
  "Set ss v =
     (case ss of
        None \<Rightarrow> Inl NilMapAssignment
      | Some m \<Rightarrow> Inr (Some (m(v \<mapsto> ())), None))"

text \<open>
  \<^verbatim>\<open>for k := range ss\<close> visits every key of the map once, in an order the language
  leaves open (it may differ from one loop to the next); over the nil map it visits
  nothing. \<open>ranges ss ks\<close> says that \<open>ks\<close> is one of the orders in which the loop may
  visit the keys of \<open>ss\<close>.
\<close>

definition ranges :: "stringset \<Rightarrow> string list \<Rightarrow> bool" where
  "ranges ss ks \<longleftrightarrow> distinct ks \<and> set ks = keys ss"

text \<open>\<^verbatim>\<open>sort.Strings\<close> of the standard library sorts in increasing order.\<close>

definition Strings :: "string list \<Rightarrow> string list" where
  "Strings xs = sort xs"

text \<open>
  \<^verbatim>\<open>func (ss stringset) slice() []string\<close> (lines 136-143): the loop appends each
  key to an empty slice, then the slice is sorted. The argument is the order in which
  the range loop visits the keys.
\<close>

definition slice :: "string list \<Rightarrow> string list" where
  "slice ks = Strings (foldl (\<lambda>sl k. sl @ [k]) [] ks)"

text \<open>\<^verbatim>\<open>strings.Join\<close> of the standard library.\<close>

fun Join :: "string list \<Rightarrow> string \<Rightarrow> string" where
  "Join [] sep = []"
| "Join [x] sep = x"
| "Join (x # y # ys) sep = x @ sep @ Join (y # ys) sep"

text \<open>\<^verbatim>\<open>func (ss stringset) String() string\<close> (lines 132-134).\<close>

definition String :: "string list \<Rightarrow> string" where
  "String ks = Join (slice ks) '',''"

text \<open>
  The methods the type offers. \<open>Set\<close> is the only one that writes to the map;
  \<open>String\<close> and \<open>slice\<close> read it. \<open>after ss c\<close> is the map after the call \<open>c\<close>; a call
  that panics leaves the map as it was.
\<close>

datatype call = CallSet string | CallString | CallSlice

fun after :: "stringset \<Rightarrow> call \<Rightarrow> stringset" where
  "after ss (CallSet v) = (case Set ss v of Inl p \<Rightarrow> ss | Inr (ss', err) \<Rightarrow> ss')"
| "after ss CallString = ss"
| "after ss CallSlice = ss"

text \<open>
  Calls of \<open>Set\<close> on one set, one value after the other, by a caller that goes on after
  each returned error; a panic ends the sequence.
\<close>

fun SetAll :: "stringset \<Rightarrow> string list \<Rightarrow> panic + stringset" where
  "SetAll ss [] = Inr ss"
| "SetAll ss (v # vs) = (case Set ss v of Inl p \<Rightarrow> Inl p | Inr (ss', err) \<Rightarrow> SetAll ss' vs)"

section \<open>The default peer identity\<close>

text \<open>
  Go byte slices are lists of characters (a \<open>char\<close> is one byte); the nil slice and the
  empty slice are both \<open>[]\<close>. A \<^verbatim>\<open>time.Time\<close> is the number of seconds since the
  Unix epoch; the zero value of the type is January 1 of year 1, 00:00:00 UTC.
\<close>

type_synonym bytes = "char list"

type_synonym Time = int

definition zeroTime :: Time where
  "zeroTime = - 62135596800"

text \<open>\<^verbatim>\<open>net.Interface\<close>, with the fields the program reads.\<close>

record Interface =
  Name :: string
  HardwareAddr :: bytes

text \<open>
  \<^verbatim>\<open>net.HardwareAddr.String\<close> of the standard library: the empty string for an
  address of length 0, otherwise the bytes as two hexadecimal digits each, separated by
  colons. \<open>hexLoop\<close> is its loop \<^verbatim>\<open>for i, b := range a\<close>.
\<close>

definition hexDigit :: string where
  "hexDigit = ''0123456789abcdef''"

fun hexLoop :: "nat \<Rightarrow> bytes \<Rightarrow> string \<Rightarrow> string" where
  "hexLoop i [] buf = buf"
| "hexLoop i (b # a) buf =
     hexLoop (i + 1) a
       ((if i > 0 then buf @ '':'' else buf)
          @ [hexDigit ! (of_char b div 16)] @ [hexDigit ! (of_char b mod 16)])"

definition HardwareAddr_String :: "bytes \<Rightarrow> string" where
  "HardwareAddr_String a = (if length a = 0 then [] else hexLoop 0 a [])"

text \<open>
  \<^verbatim>\<open>func mustHardwareAddr() string\<close> (lines 145-156). The argument is what
  \<^verbatim>\<open>net.Interfaces()\<close> returned: the error, or the interfaces in the order of the
  enumeration. \<open>firstHardwareAddr\<close> is the loop of lines 150-154 followed by the panic of
  line 155.
\<close>

fun firstHardwareAddr :: "Interface list \<Rightarrow> panic + string" where
  "firstHardwareAddr [] = Inl (PanicString ''no valid network interfaces'')"
| "firstHardwareAddr (iface # ifaces) =
     (let s = HardwareAddr_String (HardwareAddr iface)
      in if s \<noteq> [] then Inr s else firstHardwareAddr ifaces)"

definition mustHardwareAddr :: "error + Interface list \<Rightarrow> panic + string" where
  "mustHardwareAddr r =
     (case r of Inl err \<Rightarrow> Inl (PanicError err) | Inr ifaces \<Rightarrow> firstHardwareAddr ifaces)"

text \<open>
  \<^verbatim>\<open>func mustHostname() string\<close> (lines 158-164); the argument is what
  \<^verbatim>\<open>os.Hostname()\<close> returned.
\<close>

definition mustHostname :: "error + string \<Rightarrow> panic + string" where
  "mustHostname r = (case r of Inl err \<Rightarrow> Inl (PanicError err) | Inr hostname \<Rightarrow> Inr hostname)"

section \<open>The bootstrapper \<open>main\<close>\<close>

subsection \<open>Data\<close>

text \<open>
  Modelled from the spec: the declaration of \<^verbatim>\<open>RootCAPublicKey\<close> is not in
  \<^verbatim>\<open>main.go\<close>. The record has the three fields that lines 70-72 assign, which are
  the fields of the certificate record of the specification (validity start, signature,
  raw bytes).
\<close>

record RootCAPublicKey =
  NotBefore :: Time
  Signature :: bytes
  Bytes :: bytes

text \<open>
  \<^verbatim>\<open>pem.Block\<close>, \<^verbatim>\<open>x509.Certificate\<close>, \<^verbatim>\<open>net.IPNet\<close> and
  \<^verbatim>\<open>mesh.Config\<close>, with the fields the program reads or sets.
\<close>

record pem_Block =
  block_Type :: string
  block_Bytes :: bytes

record Certificate =
  cert_NotBefore :: Time
  cert_Signature :: bytes

record IPNet =
  IP :: bytes
  Mask :: bytes

record Config =
  Host :: string
  Port :: int
  ProtocolMinVersion :: nat
  Password :: bytes
  ConnLimit :: int
  PeerDiscovery :: bool
  TrustedSubnets :: "IPNet list"

type_synonym PeerName = nat

text \<open>
  What the program takes from the operating system and from the libraries, as parameters:
  the interfaces and the host name, the constants \<^verbatim>\<open>mesh.Port\<close> and
  \<^verbatim>\<open>mesh.ProtocolMinVersion\<close>, and the functions \<^verbatim>\<open>strconv.Itoa\<close>,
  \<^verbatim>\<open>net.SplitHostPort\<close>, \<^verbatim>\<open>strconv.Atoi\<close>, \<^verbatim>\<open>mesh.PeerNameFromString\<close>,
  \<^verbatim>\<open>ioutil.ReadFile\<close>, \<^verbatim>\<open>pem.Decode\<close>, \<^verbatim>\<open>x509.ParseCertificate\<close>,
  \<^verbatim>\<open>url.Parse\<close> and the \<^verbatim>\<open>String\<close> method of \<^verbatim>\<open>url.URL\<close>.
  Where the program stops on the error, the result is a sum. Where it goes on after the
  error (\<open>ReadFile\<close>, \<open>ParseCertificate\<close>), the result is the pair that Go returns, the
  pointer to the certificate being \<open>None\<close> when nil. \<open>pem_Decode\<close> gives the first
  result of \<^verbatim>\<open>pem.Decode\<close>, \<open>None\<close> when it is the nil pointer; the program drops
  the second.
\<close>

record 'url env =
  Interfaces :: "error + Interface list"
  Hostname :: "error + string"
  mesh_Port :: int
  mesh_ProtocolMinVersion :: nat
  Itoa :: "int \<Rightarrow> string"
  SplitHostPort :: "string \<Rightarrow> error + string \<times> string"
  Atoi :: "string \<Rightarrow> error + int"
  PeerNameFromString :: "string \<Rightarrow> error + PeerName"
  ReadFile :: "string \<Rightarrow> bytes \<times> error option"
  pem_Decode :: "bytes \<Rightarrow> pem_Block option"
  ParseCertificate :: "bytes \<Rightarrow> Certificate option \<times> error option"
  url_Parse :: "string \<Rightarrow> error + 'url"
  URL_String :: "'url \<Rightarrow> string"

text \<open>
  The command line as \<^verbatim>\<open>flag.Parse\<close> reads it (a command line that it rejects is
  not modelled). A flag whose default is computed is \<open>None\<close> when it is not given; the
  flags \<^verbatim>\<open>-password\<close> and \<^verbatim>\<open>-root-ca\<close> have the default \<open>''''\<close>;
  \<^verbatim>\<open>-peer\<close> and \<^verbatim>\<open>-apiserver\<close> hold their values in the order given.
\<close>

record flags =
  flag_mesh :: "string option"
  flag_hwaddr :: "string option"
  flag_nickname :: "string option"
  flag_password :: string
  flag_root_ca :: string
  flag_peer :: "string list"
  flag_apiserver :: "string list"

text \<open>
  What else a run depends on: the orders in which the two range loops of \<open>slice\<close> visit
  the keys (line 87 for the API servers, line 108 for the peers), and the signal that
  ends the wait of line 122 (\<open>None\<close>: no signal arrives).
\<close>

record inputs =
  apiserversOrder :: "string list"
  peersOrder :: "string list"
  sigint :: "string option"

text \<open>
  The calls of \<open>main\<close> on its collaborators, in order. A log line is the call with its
  arguments, not the formatted text; \<open>Log\<close> carries the prefix of the logger. The
  constant arguments of \<^verbatim>\<open>mesh.NewRouter\<close> (the null overlay, the discarding logger)
  are left out. \<open>Gossip c\<close> is the handle that \<^verbatim>\<open>router.NewGossip\<close> returns for the
  channel \<open>c\<close>.
\<close>

datatype logline =
    Fatalf_mesh_address string error
  | Fatalf_hwaddr string error
  | Print_found_a_certificate
  | Print_error error
  | Printf_picked_up_root_CA Time
  | Printf_could_not_parse string error
  | Printf_router_starting string
  | Printf_router_stopping
  | Print_signal string

datatype gossip = Gossip string

datatype event =
    Log string logline
  | NewRouter Config PeerName string
  | NewNodeBootstrapPeer PeerName RootCAPublicKey "string list" string
  | NewGossip string
  | Register gossip
  | Start
  | InitiateConnections "string list" bool
  | Stop

text \<open>
  How a run ends: a panic, an exit with a status (\<^verbatim>\<open>logger.Fatalf\<close> exits with 1,
  the flag package with 2), the wait for a signal that never arrives, or the return of
  \<open>main\<close>.
\<close>

datatype outcome = Panicked panic | Exited nat | Blocked | Returned

text \<open>The local variables of \<open>main\<close> after line 52.\<close>

record locals =
  l_peers :: stringset
  l_apiservers :: stringset
  l_meshListen :: string
  l_hwaddr :: string
  l_nickname :: string
  l_password :: string
  l_rootCA :: string
  l_host :: string
  l_port :: int
  l_name :: PeerName

subsection \<open>The code\<close>

text \<open>
  \<^verbatim>\<open>flag.Var\<close> (lines 34-35) makes a string set the value of a flag;
  \<^verbatim>\<open>flag.Parse\<close> then calls \<open>Set\<close> once for each occurrence of the flag, in the
  order of the command line, and exits with status 2 at an error that \<open>Set\<close> returns.
\<close>

fun flag_Var :: "stringset \<Rightarrow> string list \<Rightarrow> outcome + stringset" where
  "flag_Var ss [] = Inr ss"
| "flag_Var ss (v # vs) =
     (case Set ss v of
        Inl p \<Rightarrow> Inl (Panicked p)
      | Inr (ss', None) \<Rightarrow> flag_Var ss' vs
      | Inr (ss', Some err) \<Rightarrow> Inl (Exited 2))"

text \<open>\<^verbatim>\<open>net.JoinHostPort\<close> of the standard library.\<close>

definition JoinHostPort :: "string \<Rightarrow> string \<Rightarrow> string" where
  "JoinHostPort h p =
     (if CHR '':'' \<in> set h \<or> CHR ''%'' \<in> set h then ''['' @ h @ '']:'' @ p else h @ '':'' @ p)"

text \<open>
  Lines 25-52 of \<open>main\<close>: the two string sets, made empty by \<^verbatim>\<open>&stringset{}\<close>
  (lines 25-26), the defaults of the flags (\<open>mustHardwareAddr\<close> and
  \<open>mustHostname\<close> are called whether or not the flags are given), the parsing of the
  flags, the logger (line 38, the prefix is the nickname followed by \<open>''> ''\<close>), the
  listen address (lines 40-47) and the peer name (lines 49-52). The result is the trace
  and the outcome of a run that stops here, or the local variables.
\<close>

definition startup :: "'url env \<Rightarrow> flags \<Rightarrow> event list \<times> outcome + locals" where
  "startup env fl =
     (let meshDefault = JoinHostPort ''0.0.0.0'' (Itoa env (mesh_Port env)) in
      case mustHardwareAddr (Interfaces env) of
        Inl p \<Rightarrow> Inl ([], Panicked p)
      | Inr hwaddrDefault \<Rightarrow>
      case mustHostname (Hostname env) of
        Inl p \<Rightarrow> Inl ([], Panicked p)
      | Inr nicknameDefault \<Rightarrow>
      case flag_Var (Some Map.empty) (flag_peer fl) of
        Inl stopped \<Rightarrow> Inl ([], stopped)
      | Inr peers \<Rightarrow>
      case flag_Var (Some Map.empty) (flag_apiserver fl) of
        Inl stopped \<Rightarrow> Inl ([], stopped)
      | Inr apiservers \<Rightarrow>
      let meshListen = (case flag_mesh fl of None \<Rightarrow> meshDefault | Some v \<Rightarrow> v);
          hwaddr = (case flag_hwaddr fl of None \<Rightarrow> hwaddrDefault | Some v \<Rightarrow> v);
          nickname = (case flag_nickname fl of None \<Rightarrow> nicknameDefault | Some v \<Rightarrow> v);
          logger = nickname @ ''> ''
      in
      case SplitHostPort env meshListen of
        Inl err \<Rightarrow> Inl ([Log logger (Fatalf_mesh_address meshListen err)], Exited 1)
      | Inr (host, portStr) \<Rightarrow>
      case Atoi env portStr of
        Inl err \<Rightarrow> Inl ([Log logger (Fatalf_mesh_address meshListen err)], Exited 1)
      | Inr port \<Rightarrow>
      case PeerNameFromString env hwaddr of
        Inl err \<Rightarrow> Inl ([Log logger (Fatalf_hwaddr hwaddr err)], Exited 1)
      | Inr name \<Rightarrow>
          Inr \<lparr>l_peers = peers, l_apiservers = apiservers, l_meshListen = meshListen,
               l_hwaddr = hwaddr, l_nickname = nickname, l_password = flag_password fl,
               l_rootCA = flag_root_ca fl, l_host = host, l_port = port, l_name = name\<rparr>)"

text \<open>\<^verbatim>\<open>if err != nil { logger.Print(err) }\<close> (lines 59-61 and 65-67).\<close>

definition printError :: "string \<Rightarrow> error option \<Rightarrow> event list" where
  "printError logger err = (case err of Some e \<Rightarrow> [Log logger (Print_error e)] | None \<Rightarrow> [])"

text \<open>
  Lines 54-73: \<open>certInfo\<close> starts as the zero value of the struct. With a non-empty
  \<^verbatim>\<open>-root-ca\<close> the file is read and an error is printed; \<^verbatim>\<open>certBlock.Bytes\<close>
  (line 64) dereferences the block and \<^verbatim>\<open>cert.NotBefore\<close> (line 69) the certificate,
  each a run-time panic on the nil pointer. The result is the trace and either the panic
  or \<open>certInfo\<close>.
\<close>

definition loadRootCA ::
  "'url env \<Rightarrow> string \<Rightarrow> string \<Rightarrow> event list \<times> (panic + RootCAPublicKey)" where
  "loadRootCA env logger rootCA =
     (let certInfo = \<lparr>NotBefore = zeroTime, Signature = [], Bytes = []\<rparr> in
      if rootCA \<noteq> [] then
        let (ca, err) = ReadFile env rootCA;
            t1 = [Log logger Print_found_a_certificate] @ printError logger err
        in
        case pem_Decode env ca of
          None \<Rightarrow> (t1, Inl NilDereference)
        | Some certBlock \<Rightarrow>
            let (cert, err) = ParseCertificate env (block_Bytes certBlock);
                t2 = t1 @ printError logger err
            in
            case cert of
              None \<Rightarrow> (t2, Inl NilDereference)
            | Some c \<Rightarrow>
                (t2 @ [Log logger (Printf_picked_up_root_CA (cert_NotBefore c))],
                 Inr (certInfo\<lparr>NotBefore := cert_NotBefore c, Signature := cert_Signature c,
                        Bytes := block_Bytes certBlock\<rparr>))
      else ([], Inr certInfo))"

text \<open>
  The loop of lines 86-93 over \<^verbatim>\<open>apiservers.slice()\<close>, with the trace and the slice
  \<open>apiserverURLs\<close> as accumulators.
\<close>

fun parseApiservers ::
  "'url env \<Rightarrow> string \<Rightarrow> string list \<Rightarrow> event list \<Rightarrow> string list
     \<Rightarrow> event list \<times> string list" where
  "parseApiservers env logger [] tr apiserverURLs = (tr, apiserverURLs)"
| "parseApiservers env logger (apiserver # rest) tr apiserverURLs =
     (case url_Parse env apiserver of
        Inr apiserverURL \<Rightarrow>
          parseApiservers env logger rest tr (apiserverURLs @ [URL_String env apiserverURL])
      | Inl err \<Rightarrow>
          parseApiservers env logger rest
            (tr @ [Log logger (Printf_could_not_parse apiserver err)]) apiserverURLs)"

text \<open>
  The end of \<open>main\<close>: line 122 waits for the signal and prints it, then the deferred
  function of lines 103-106 prints and stops the router. The function that prints the
  status of the router once, five seconds after the start (lines 117-120), is left out.
\<close>

definition shutdown :: "string \<Rightarrow> string option \<Rightarrow> event list" where
  "shutdown logger sig =
     (case sig of
        None \<Rightarrow> []
      | Some s \<Rightarrow> [Log logger (Print_signal s), Log logger Printf_router_stopping, Stop])"

text \<open>\<^verbatim>\<open>func main()\<close> (lines 24-123): the trace of its calls and how the run ends.\<close>

definition main :: "'url env \<Rightarrow> flags \<Rightarrow> inputs \<Rightarrow> event list \<times> outcome" where
  "main env fl inp =
     (case startup env fl of
        Inl stopped \<Rightarrow> stopped
      | Inr l \<Rightarrow>
      let logger = l_nickname l @ ''> '' in
      case loadRootCA env logger (l_rootCA l) of
        (t1, Inl p) \<Rightarrow> (t1, Panicked p)
      | (t1, Inr certInfo) \<Rightarrow>
      let router = NewRouter
            \<lparr>Host = l_host l, Port = l_port l, ProtocolMinVersion = mesh_ProtocolMinVersion env,
             Password = l_password l, ConnLimit = 64, PeerDiscovery = True,
             TrustedSubnets = []\<rparr> (l_name l) (l_nickname l);
          (t2, apiserverURLs) = parseApiservers env logger (slice (apiserversOrder inp)) [] [];
          t3 = [NewNodeBootstrapPeer (l_name l) certInfo apiserverURLs logger,
                NewGossip ''kubernetes-node-bootstrap-v0'',
                Register (Gossip ''kubernetes-node-bootstrap-v0''),
                Log logger (Printf_router_starting (l_meshListen l)),
                Start,
                InitiateConnections (slice (peersOrder inp)) True]
      in (t1 @ [router] @ t2 @ t3 @ shutdown logger (sigint inp),
          case sigint inp of None \<Rightarrow> Blocked | Some s \<Rightarrow> Returned))"

subsection \<open>Reading a trace\<close>

text \<open>
  The arguments of each call of \<^verbatim>\<open>newNodeBootstrapPeer\<close> in a trace, the calls that
  create a gossip handle or register one, and the values that the loop of lines 86-93
  reported as not parsed.
\<close>

fun peerArgs :: "event \<Rightarrow> (PeerName \<times> RootCAPublicKey \<times> string list \<times> string) list" where
  "peerArgs (NewNodeBootstrapPeer n c us lg) = [(n, c, us, lg)]"
| "peerArgs _ = []"

definition constructed ::
  "event list \<Rightarrow> (PeerName \<times> RootCAPublicKey \<times> string list \<times> string) list" where
  "constructed tr = concat (map peerArgs tr)"

fun gossipCall :: "event \<Rightarrow> bool" where
  "gossipCall (NewGossip c) = True"
| "gossipCall (Register g) = True"
| "gossipCall _ = False"

fun parseFailure :: "event \<Rightarrow> (string \<times> error) list" where
  "parseFailure (Log lg (Printf_could_not_parse v err)) = [(v, err)]"
| "parseFailure _ = []"

definition parseFailures :: "event list \<Rightarrow> (string \<times> error) list" where
  "parseFailures tr = concat (map parseFailure tr)"

subsection \<open>An example run\<close>

text \<open>
  A machine with a loopback interface and one Ethernet interface, three certificate
  files (a good one, one without a PEM block, one whose PEM body is not a certificate),
  and a URL parser that rejects a stray percent sign.
\<close>

definition env0 :: "string env" where
  "env0 = \<lparr>Interfaces = Inr [\<lparr>Name = ''lo'', HardwareAddr = []\<rparr>,
                              \<lparr>Name = ''eth0'', HardwareAddr = [CHR 0x02, CHR 0x42]\<rparr>],
           Hostname = Inr ''node1'', mesh_Port = 6783, mesh_ProtocolMinVersion = 1,
           Itoa = (\<lambda>n. if n = 6783 then ''6783'' else ''0''),
           SplitHostPort = (\<lambda>s. if s = ''0.0.0.0:6783'' then Inr (''0.0.0.0'', ''6783'')
                                else Inl ''missing port in address''),
           Atoi = (\<lambda>s. if s = ''6783'' then Inr 6783 else Inl ''invalid syntax''),
           PeerNameFromString = (\<lambda>s. if s = ''02:42'' then Inr 578 else Inl ''invalid peer name''),
           ReadFile = (\<lambda>p. if p = ''ca.pem'' then (''PEM'', None)
                           else if p = ''bad.pem'' then (''BADPEM'', None)
                           else if p = ''notes.txt'' then (''hello'', None)
                           else ([], Some ''no such file or directory'')),
           pem_Decode = (\<lambda>b. if b = ''PEM''
                             then Some \<lparr>block_Type = ''CERTIFICATE'', block_Bytes = ''DER''\<rparr>
                             else if b = ''BADPEM''
                             then Some \<lparr>block_Type = ''CERTIFICATE'', block_Bytes = ''garbage''\<rparr>
                             else None),
           ParseCertificate = (\<lambda>b. if b = ''DER''
                             then (Some \<lparr>cert_NotBefore = 1577836800, cert_Signature = ''sig''\<rparr>, None)
                             else (None, Some ''malformed certificate'')),
           url_Parse = (\<lambda>s. if CHR ''%'' \<in> set s then Inl ''invalid URL escape'' else Inr s),
           URL_String = (\<lambda>u. u)\<rparr>"

definition fl0 :: flags where
  "fl0 = \<lparr>flag_mesh = None, flag_hwaddr = None, flag_nickname = None, flag_password = [],
          flag_root_ca = ''ca.pem'', flag_peer = [''10.0.0.2''],
          flag_apiserver = [''https://b:6443'', ''%'', ''https://a:6443'', ''https://b:6443'']\<rparr>"

definition inp0 :: inputs where
  "inp0 = \<lparr>apiserversOrder = [''https://b:6443'', ''%'', ''https://a:6443''],
           peersOrder = [''10.0.0.2''], sigint = Some ''interrupt''\<rparr>"

definition l0 :: locals where
  "l0 = \<lparr>l_peers = Some [''10.0.0.2'' \<mapsto> ()],
         l_apiservers = Some [''https://b:6443'' \<mapsto> (), ''%'' \<mapsto> (), ''https://a:6443'' \<mapsto> ()],
         l_meshListen = ''0.0.0.0:6783'', l_hwaddr = ''02:42'', l_nickname = ''node1'',
         l_password = [], l_rootCA = ''ca.pem'', l_host = ''0.0.0.0'', l_port = 6783,
         l_name = 578\<rparr>"

section \<open>The merge of the specification\<close>

text \<open>
  Modelled from the spec: the state of a peer, the selection of a certificate and the
  merge of two states are not in \<^verbatim>\<open>main.go\<close>, which only constructs the peer and
  registers it. The definitions follow sections 3 and 4.1 of the specification.

  A certificate record has a validity start, a signature and raw bytes; \<open>None\<close> is the
  absent certificate. A state is a certificate and a set of endpoints.
\<close>

record CertificateRecord =
  notBefore :: Time
  signature :: bytes
  rawBytes :: bytes

record BootstrapState =
  certificate :: "CertificateRecord option"
  endpoints :: "string set"

text \<open>
  Modelled from the spec: \<open>selectCertificate\<close> is absent only if both operands are;
  with one operand absent it is the other; with both present it is the one with the
  larger \<open>notBefore\<close>, and for equal \<open>notBefore\<close> the one whose signature is greater in
  lexicographic order. Where the signatures are equal as well, the rule of the
  specification names no preference, and sections 3, 4.1 and 8 require the choice to be
  deterministic and independent of the order of the arguments; the model goes on to the
  one field left and selects the certificate whose raw bytes are greater in
  lexicographic order. Two certificates that agree in all three fields are equal.
\<close>

fun selectCertificate ::
  "CertificateRecord option \<Rightarrow> CertificateRecord option \<Rightarrow> CertificateRecord option" where
  "selectCertificate None None = None"
| "selectCertificate (Some a) None = Some a"
| "selectCertificate None (Some b) = Some b"
| "selectCertificate (Some a) (Some b) =
     (if notBefore a > notBefore b then Some a
      else if notBefore b > notBefore a then Some b
      else if signature a > signature b then Some a
      else if signature b > signature a then Some b
      else if rawBytes b > rawBytes a then Some b
      else Some a)"

text \<open>
  Modelled from the spec: the merged certificate is the selected one, the merged
  endpoints are the union.
\<close>

definition merge :: "BootstrapState \<Rightarrow> BootstrapState \<Rightarrow> BootstrapState" where
  "merge a b = \<lparr>certificate = selectCertificate (certificate a) (certificate b),
                endpoints = endpoints a \<union> endpoints b\<rparr>"

section \<open>Properties of the string set\<close>

lemma append_loop: "foldl (\<lambda>sl k. sl @ [k]) acc ks = acc @ ks"
  by (induction ks arbitrary: acc) simp_all

lemma slice_sort: "slice ks = sort ks"
  by (simp add: slice_def Strings_def append_loop)

lemma slice_unique:
  assumes "distinct ks" and "distinct ks'" and "set ks = set ks'"
  shows "slice ks = slice ks'"
proof (rule sorted_distinct_set_unique)
  show "sorted (slice ks)" and "sorted (slice ks')"
    by (simp_all add: slice_sort)
  show "distinct (slice ks)" and "distinct (slice ks')"
    using assms by (simp_all add: slice_sort)
  show "set (slice ks) = set (slice ks')"
    using assms by (simp add: slice_sort)
qed

lemma keys_simps: "keys None = {}" "keys (Some m) = dom m"
  by (simp_all add: keys_def)

lemma Set_simps:
  "Set None v = Inl NilMapAssignment"
  "Set (Some m) v = Inr (Some (m(v \<mapsto> ())), None)"
  by (simp_all add: Set_def)

lemma SetAll_nil: "SetAll None vs = (if vs = [] then Inr None else Inl NilMapAssignment)"
  by (cases vs) (simp_all add: Set_simps)

lemma SetAll_made:
  "SetAll (Some m) vs = Inr (Some (\<lambda>k. if k \<in> set vs then Some () else m k))"
  by (induction vs arbitrary: m) (auto simp: Set_simps fun_eq_iff)

lemma keys_after: "keys ss \<subseteq> keys (after ss c)"
  by (cases c; cases ss) (auto simp: Set_simps keys_simps)

lemma keys_after_all: "keys ss \<subseteq> keys (foldl after ss cs)"
proof (induction cs arbitrary: ss)
  case Nil
  show ?case by simp
next
  case (Cons c cs)
  have "keys ss \<subseteq> keys (after ss c)" by (rule keys_after)
  also have "\<dots> \<subseteq> keys (foldl after (after ss c) cs)" by (rule Cons.IH)
  finally show ?case by simp
qed

text \<open>
  C3. Whatever order the range loop takes, \<open>slice\<close> returns the keys of the set in
  increasing lexicographic order, each key once; two string sets with the same keys give
  the same slice and the same \<open>String\<close> output.
\<close>

theorem slice_canonical:
  assumes "ranges ss ks" and "ranges ss' ks'" and "keys ss = keys ss'"
  shows "sorted (slice ks) \<and> distinct (slice ks) \<and> set (slice ks) = keys ss
    \<and> slice ks = slice ks' \<and> String ks = String ks'"
proof -
  from assms have d: "distinct ks" "distinct ks'" and s: "set ks = keys ss" "set ks = set ks'"
    by (simp_all add: ranges_def)
  have eq: "slice ks = slice ks'"
    using d s(2) by (rule slice_unique)
  have "sorted (slice ks)" "distinct (slice ks)" "set (slice ks) = keys ss"
    using d(1) s(1) by (simp_all add: slice_sort)
  moreover have "String ks = String ks'"
    by (simp add: String_def eq)
  ultimately show ?thesis using eq by simp
qed

theorem slice_canonical_witness:
  "ranges (Some [''b'' \<mapsto> (), ''a'' \<mapsto> ()]) [''b'', ''a'']
   \<and> ranges (Some [''a'' \<mapsto> (), ''b'' \<mapsto> ()]) [''a'', ''b'']
   \<and> slice [''b'', ''a''] = [''a'', ''b'']
   \<and> slice [''a'', ''b''] = [''a'', ''b'']
   \<and> String [''b'', ''a''] = ''a,b''
   \<and> String [''a'', ''b''] = ''a,b''"
proof -
  have r1: "ranges (Some [''b'' \<mapsto> (), ''a'' \<mapsto> ()]) [''b'', ''a'']"
    by (auto simp: ranges_def keys_simps)
  have r2: "ranges (Some [''a'' \<mapsto> (), ''b'' \<mapsto> ()]) [''a'', ''b'']"
    by (auto simp: ranges_def keys_simps)
  have e: "keys (Some [''b'' \<mapsto> (), ''a'' \<mapsto> ()]) = keys (Some [''a'' \<mapsto> (), ''b'' \<mapsto> ()])"
    by (auto simp: keys_simps)
  have v: "slice [''a'', ''b''] = [''a'', ''b'']" "String [''a'', ''b''] = ''a,b''"
    by (simp_all add: String_def slice_def Strings_def)
  from slice_canonical [OF r1 r2 e] r1 r2 v show ?thesis by simp
qed

text \<open>
  C4. For every string set, the nil map included, calling \<open>Set\<close> with a value twice
  gives what calling it once gives, and two values may be added in either order: on the
  nil map every such sequence ends in the panic of the first call, on a map that has
  been made it ends with the keys of the map and the values added, whatever their order
  and however often each is given. A call of \<open>Set\<close> that does not panic returns the nil
  error and has added its value to the keys; only a call on the nil map panics.
\<close>

theorem Set_idempotent_commutative:
  "SetAll ss [v, v] = SetAll ss [v]
   \<and> SetAll ss [v, w] = SetAll ss [w, v]
   \<and> SetAll ss vs =
       (case ss of
          None \<Rightarrow> if vs = [] then Inr None else Inl NilMapAssignment
        | Some m \<Rightarrow> Inr (Some (\<lambda>k. if k \<in> set vs then Some () else m k)))
   \<and> (case Set ss v of
          Inl p \<Rightarrow> ss = None \<and> p = NilMapAssignment
        | Inr (ss', err) \<Rightarrow> ss \<noteq> None \<and> err = None \<and> keys ss' = insert v (keys ss))"
proof -
  have twice: "SetAll ss [v, v] = SetAll ss [v]"
    by (cases ss) (simp_all add: Set_simps)
  have swap: "SetAll ss [v, w] = SetAll ss [w, v]"
    by (cases ss) (auto simp: Set_simps fun_eq_iff)
  have every: "SetAll ss vs =
       (case ss of
          None \<Rightarrow> if vs = [] then Inr None else Inl NilMapAssignment
        | Some m \<Rightarrow> Inr (Some (\<lambda>k. if k \<in> set vs then Some () else m k)))"
    by (cases ss) (simp_all add: SetAll_nil SetAll_made)
  have one: "case Set ss v of
          Inl p \<Rightarrow> ss = None \<and> p = NilMapAssignment
        | Inr (ss', err) \<Rightarrow> ss \<noteq> None \<and> err = None \<and> keys ss' = insert v (keys ss)"
    by (cases ss) (simp_all add: Set_simps keys_simps)
  from twice swap every one show ?thesis
    by blast
qed

theorem Set_idempotent_commutative_witness:
  "SetAll None [''a'', ''a''] = Inl NilMapAssignment
   \<and> SetAll None [''a''] = Inl NilMapAssignment
   \<and> SetAll (Some Map.empty) [''a'', ''a''] = Inr (Some [''a'' \<mapsto> ()])
   \<and> SetAll (Some Map.empty) [''a''] = Inr (Some [''a'' \<mapsto> ()])
   \<and> SetAll (Some Map.empty) [''a'', ''b''] = SetAll (Some Map.empty) [''b'', ''a'']"
proof -
  note nil = Set_idempotent_commutative [of None "''a''" "''a''" "[''a'']"]
  note made = Set_idempotent_commutative [of "Some Map.empty" "''a''" "''b''" "[''a'']"]
  have n1: "SetAll None [''a''] = Inl NilMapAssignment"
    using nil by simp
  have n2: "SetAll None [''a'', ''a''] = Inl NilMapAssignment"
    using nil n1 by simp
  have m1: "SetAll (Some Map.empty) [''a''] = Inr (Some [''a'' \<mapsto> ()])"
    using made by (auto simp: fun_eq_iff)
  have m2: "SetAll (Some Map.empty) [''a'', ''a''] = Inr (Some [''a'' \<mapsto> ()])"
    using made m1 by simp
  have m3: "SetAll (Some Map.empty) [''a'', ''b''] = SetAll (Some Map.empty) [''b'', ''a'']"
    using made by blast
  from n1 n2 m1 m2 m3 show ?thesis by blast
qed

text \<open>
  C5. The set only grows: every key of the set before \<open>Set\<close> is a key after it, whether
  the call returns or panics, and no sequence of calls of the methods of the type
  removes a key.
\<close>

theorem Set_only_grows:
  "keys ss \<subseteq> keys (after ss (CallSet v))
   \<and> keys ss \<subseteq> keys (foldl after ss cs)
   \<and> (case Set ss v of Inl p \<Rightarrow> keys ss = {} | Inr (ss', err) \<Rightarrow> keys ss \<subseteq> keys ss')"
proof -
  have "case Set ss v of Inl p \<Rightarrow> keys ss = {} | Inr (ss', err) \<Rightarrow> keys ss \<subseteq> keys ss'"
    by (cases ss) (auto simp: Set_simps keys_simps)
  with keys_after [of ss "CallSet v"] keys_after_all [of ss cs] show ?thesis
    by blast
qed

section \<open>Properties of the default peer identity\<close>

lemma hexLoop_acc: "buf \<noteq> [] \<Longrightarrow> hexLoop i a buf \<noteq> []"
  by (induction a arbitrary: i buf) auto

lemma String_empty_iff: "HardwareAddr_String a = [] \<longleftrightarrow> a = []"
  by (cases a) (simp_all add: HardwareAddr_String_def hexLoop_acc)

lemma firstHardwareAddr_find:
  "firstHardwareAddr ifaces =
     (case find (\<lambda>iface. HardwareAddr_String (HardwareAddr iface) \<noteq> []) ifaces of
        None \<Rightarrow> Inl (PanicString ''no valid network interfaces'')
      | Some iface \<Rightarrow> Inr (HardwareAddr_String (HardwareAddr iface)))"
  by (induction ifaces) (simp_all add: Let_def)

text \<open>
  C10. \<open>mustHardwareAddr\<close> panics with the error when the enumeration of the interfaces
  fails; otherwise it returns the address string of the first interface, in the order of
  the enumeration, whose address string is not empty, and panics with
  \<open>''no valid network interfaces''\<close> when there is none. The address string is empty
  exactly for an interface without hardware address. The result is a function of what
  the enumeration returned.
\<close>

theorem mustHardwareAddr_first:
  "mustHardwareAddr (Inl err) = Inl (PanicError err)
   \<and> mustHardwareAddr (Inr ifaces) =
       (case find (\<lambda>iface. HardwareAddr_String (HardwareAddr iface) \<noteq> []) ifaces of
          None \<Rightarrow> Inl (PanicString ''no valid network interfaces'')
        | Some iface \<Rightarrow> Inr (HardwareAddr_String (HardwareAddr iface)))
   \<and> (HardwareAddr_String a = [] \<longleftrightarrow> a = [])"
proof -
  have failed: "mustHardwareAddr (Inl err) = Inl (PanicError err)"
    by (simp add: mustHardwareAddr_def)
  have "mustHardwareAddr (Inr ifaces) = firstHardwareAddr ifaces"
    by (simp add: mustHardwareAddr_def)
  then have enumerated: "mustHardwareAddr (Inr ifaces) =
       (case find (\<lambda>iface. HardwareAddr_String (HardwareAddr iface) \<noteq> []) ifaces of
          None \<Rightarrow> Inl (PanicString ''no valid network interfaces'')
        | Some iface \<Rightarrow> Inr (HardwareAddr_String (HardwareAddr iface)))"
    by (simp only: firstHardwareAddr_find)
  from failed enumerated String_empty_iff [of a] show ?thesis
    by (simp only: simp_thms)
qed

theorem mustHardwareAddr_first_witness:
  "mustHardwareAddr (Inr [\<lparr>Name = ''lo'', HardwareAddr = []\<rparr>,
                          \<lparr>Name = ''eth0'', HardwareAddr = [CHR 0x02, CHR 0x42]\<rparr>,
                          \<lparr>Name = ''eth1'', HardwareAddr = [CHR 0x02, CHR 0x43]\<rparr>])
     = Inr ''02:42''
   \<and> mustHardwareAddr (Inr [\<lparr>Name = ''lo'', HardwareAddr = []\<rparr>])
     = Inl (PanicString ''no valid network interfaces'')
   \<and> mustHardwareAddr (Inl ''route ip+net: netlinkrib: too many open files'')
     = Inl (PanicError ''route ip+net: netlinkrib: too many open files'')"
  using
    mustHardwareAddr_first [of "''route ip+net: netlinkrib: too many open files''"
      "[\<lparr>Name = ''lo'', HardwareAddr = []\<rparr>,
        \<lparr>Name = ''eth0'', HardwareAddr = [CHR 0x02, CHR 0x42]\<rparr>,
        \<lparr>Name = ''eth1'', HardwareAddr = [CHR 0x02, CHR 0x43]\<rparr>]" "[]"]
    mustHardwareAddr_first [of "''''" "[\<lparr>Name = ''lo'', HardwareAddr = []\<rparr>]" "[]"]
  by (simp add: HardwareAddr_String_def hexDigit_def)

section \<open>Properties of \<open>main\<close>\<close>

subsection \<open>The blocks of \<open>main\<close>\<close>

lemma flag_Var_Inr:
  "flag_Var (Some m) vs = Inr (Some (\<lambda>k. if k \<in> set vs then Some () else m k))"
  by (induction vs arbitrary: m) (auto simp: Set_simps fun_eq_iff)

lemma startup_Inr:
  assumes "startup env fl = Inr l"
  shows "keys (l_apiservers l) = set (flag_apiserver fl)"
    and "keys (l_peers l) = set (flag_peer fl)"
    and "l_rootCA l = flag_root_ca fl"
  using assms
  by (auto simp: startup_def flag_Var_Inr Let_def keys_simps dom_def
      split: sum.splits prod.splits if_splits)

lemma constructed_simps:
  "constructed [] = []"
  "constructed (e # tr) = peerArgs e @ constructed tr"
  "constructed (xs @ ys) = constructed xs @ constructed ys"
  by (simp_all add: constructed_def)

lemma parseFailures_simps:
  "parseFailures [] = []"
  "parseFailures (e # tr) = parseFailure e @ parseFailures tr"
  "parseFailures (xs @ ys) = parseFailures xs @ parseFailures ys"
  by (simp_all add: parseFailures_def)

lemma startup_Inl:
  assumes "startup env fl = Inl (tr, out)"
  shows "constructed tr = []" and "filter gossipCall tr = []" and "parseFailures tr = []"
    and "out \<noteq> Blocked" and "out \<noteq> Returned"
  using assms
  by (auto simp: startup_def flag_Var_Inr Let_def constructed_def parseFailures_def
      split: sum.splits prod.splits)

lemma startup_env:
  "startup (env\<lparr>ReadFile := rf, pem_Decode := pd, ParseCertificate := pc\<rparr>) fl = startup env fl"
  by (simp add: startup_def Let_def split: sum.splits prod.splits)


lemma loadRootCA_trace:
  assumes "loadRootCA env lg r = (t1, res)"
  shows "constructed t1 = []" and "filter gossipCall t1 = []" and "parseFailures t1 = []"
  using assms
  by (auto simp: loadRootCA_def Let_def constructed_def parseFailures_def printError_def
      split: if_splits prod.splits option.splits)

lemma loadRootCA_empty:
  "loadRootCA env lg [] = ([], Inr \<lparr>NotBefore = zeroTime, Signature = [], Bytes = []\<rparr>)"
  by (simp add: loadRootCA_def)

lemma parseApiservers_eq:
  "parseApiservers env lg xs tr us =
     (tr @ List.map_filter (\<lambda>x. case url_Parse env x of
                 Inl err \<Rightarrow> Some (Log lg (Printf_could_not_parse x err)) | Inr u \<Rightarrow> None) xs,
      us @ List.map_filter (\<lambda>x. case url_Parse env x of
                 Inl err \<Rightarrow> None | Inr u \<Rightarrow> Some (URL_String env u)) xs)"
  by (induction xs arbitrary: tr us) (auto simp: List.map_filter_simps split: sum.splits)

lemma parseApiservers_env:
  "parseApiservers (env\<lparr>ReadFile := rf, pem_Decode := pd, ParseCertificate := pc\<rparr>) lg xs tr us
     = parseApiservers env lg xs tr us"
  by (induction xs arbitrary: tr us) (simp_all split: sum.splits)

lemma rejected_trace:
  "constructed (List.map_filter (\<lambda>x. case url_Parse env x of
       Inl err \<Rightarrow> Some (Log lg (Printf_could_not_parse x err)) | Inr u \<Rightarrow> None) xs) = []"
  "filter gossipCall (List.map_filter (\<lambda>x. case url_Parse env x of
       Inl err \<Rightarrow> Some (Log lg (Printf_could_not_parse x err)) | Inr u \<Rightarrow> None) xs) = []"
  "parseFailures (List.map_filter (\<lambda>x. case url_Parse env x of
       Inl err \<Rightarrow> Some (Log lg (Printf_could_not_parse x err)) | Inr u \<Rightarrow> None) xs)
   = List.map_filter (\<lambda>x. case url_Parse env x of Inl err \<Rightarrow> Some (x, err) | Inr u \<Rightarrow> None) xs"
  by (induction xs)
     (auto simp: List.map_filter_simps constructed_def parseFailures_def split: sum.splits)

lemma shutdown_trace:
  "constructed (shutdown lg sig) = []" "filter gossipCall (shutdown lg sig) = []"
  "parseFailures (shutdown lg sig) = []"
  by (cases sig; simp add: shutdown_def constructed_simps parseFailures_simps)+

lemma slice_of_set:
  assumes "ranges ss ks" and "keys ss = set vs"
  shows "slice ks = sort (remdups vs)"
proof -
  from assms have "distinct ks" and "set ks = set (remdups vs)"
    by (simp_all add: ranges_def)
  then have "slice ks = slice (remdups vs)"
    by (intro slice_unique) simp_all
  then show ?thesis by (simp add: slice_sort)
qed

subsection \<open>The three ways a run goes\<close>

lemma main_stopped:
  assumes "startup env fl = Inl r"
  shows "main env fl inp = r"
  using assms by (simp add: main_def)

lemma main_panic:
  assumes "startup env fl = Inr l"
    and "loadRootCA env (l_nickname l @ ''> '') (l_rootCA l) = (t1, Inl p)"
  shows "main env fl inp = (t1, Panicked p)"
  using assms by (simp add: main_def Let_def)

lemma main_run:
  assumes "startup env fl = Inr l"
    and "loadRootCA env (l_nickname l @ ''> '') (l_rootCA l) = (t1, Inr certInfo)"
  shows "main env fl inp =
    (t1 @ [NewRouter \<lparr>Host = l_host l, Port = l_port l,
              ProtocolMinVersion = mesh_ProtocolMinVersion env, Password = l_password l,
              ConnLimit = 64, PeerDiscovery = True, TrustedSubnets = []\<rparr> (l_name l) (l_nickname l)]
        @ List.map_filter (\<lambda>x. case url_Parse env x of
              Inl err \<Rightarrow> Some (Log (l_nickname l @ ''> '') (Printf_could_not_parse x err))
            | Inr u \<Rightarrow> None) (slice (apiserversOrder inp))
        @ [NewNodeBootstrapPeer (l_name l) certInfo
              (List.map_filter (\<lambda>x. case url_Parse env x of
                   Inl err \<Rightarrow> None | Inr u \<Rightarrow> Some (URL_String env u)) (slice (apiserversOrder inp)))
              (l_nickname l @ ''> ''),
           NewGossip ''kubernetes-node-bootstrap-v0'',
           Register (Gossip ''kubernetes-node-bootstrap-v0''),
           Log (l_nickname l @ ''> '') (Printf_router_starting (l_meshListen l)),
           Start,
           InitiateConnections (slice (peersOrder inp)) True]
        @ shutdown (l_nickname l @ ''> '') (sigint inp),
     case sigint inp of None \<Rightarrow> Blocked | Some s \<Rightarrow> Returned)"
  using assms
  by (simp add: main_def Let_def parseApiservers_eq)

subsection \<open>The example run\<close>

lemma startup0: "startup env0 (fl0\<lparr>flag_root_ca := r\<rparr>) = Inr (l0\<lparr>l_rootCA := r\<rparr>)"
  by (simp add: startup_def env0_def fl0_def l0_def mustHardwareAddr_def mustHostname_def
        HardwareAddr_String_def hexDigit_def JoinHostPort_def Set_simps fun_eq_iff)

lemma startup0_ca: "startup env0 fl0 = Inr l0"
  using startup0 [of "''ca.pem''"] by (simp add: fl0_def l0_def)

lemma ranges0: "ranges (l_apiservers l0) (apiserversOrder inp0)"
  by (auto simp: ranges_def keys_simps l0_def inp0_def)

lemma load0_ca: "loadRootCA env0 (l_nickname l0 @ ''> '') (l_rootCA l0)
   = ([Log ''node1> '' Print_found_a_certificate,
       Log ''node1> '' (Printf_picked_up_root_CA 1577836800)],
      Inr \<lparr>NotBefore = 1577836800, Signature = ''sig'', Bytes = ''DER''\<rparr>)"
  by (simp add: loadRootCA_def env0_def l0_def printError_def)

lemma returned0: "snd (main env0 fl0 inp0) = Returned"
  by (simp add: main_run [OF startup0_ca load0_ca] inp0_def)

subsection \<open>The certificate handed to the peer\<close>

text \<open>
  C6. When \<^verbatim>\<open>-root-ca\<close> is the empty string and \<open>main\<close> gets as far as the
  construction of the peer, \<^verbatim>\<open>newNodeBootstrapPeer\<close> is called once, with a
  \<open>RootCAPublicKey\<close> whose three fields have their zero values; and the run does not
  depend on what reading the file, decoding PEM or parsing a certificate would return:
  none of the certificate-loading code runs.
\<close>

theorem empty_root_ca_absent_certificate:
  assumes "startup env fl = Inr l" and "flag_root_ca fl = []"
  shows "map (\<lambda>(n, c, us, lg). c) (constructed (fst (main env fl inp)))
      = [\<lparr>NotBefore = zeroTime, Signature = [], Bytes = []\<rparr>]
    \<and> main (env\<lparr>ReadFile := rf, pem_Decode := pd, ParseCertificate := pc\<rparr>) fl inp
      = main env fl inp"
proof -
  have r: "l_rootCA l = []"
    using startup_Inr(3) [OF assms(1)] assms(2) by simp
  have ld: "loadRootCA env (l_nickname l @ ''> '') (l_rootCA l)
      = ([], Inr \<lparr>NotBefore = zeroTime, Signature = [], Bytes = []\<rparr>)"
    by (simp add: r loadRootCA_empty)
  have "constructed (fst (main env fl inp))
      = [(l_name l, \<lparr>NotBefore = zeroTime, Signature = [], Bytes = []\<rparr>,
          List.map_filter (\<lambda>x. case url_Parse env x of
             Inl err \<Rightarrow> None | Inr u \<Rightarrow> Some (URL_String env u)) (slice (apiserversOrder inp)),
          l_nickname l @ ''> '')]"
    unfolding main_run [OF assms(1) ld]
    by (simp add: constructed_simps rejected_trace shutdown_trace)
  moreover have "main (env\<lparr>ReadFile := rf, pem_Decode := pd, ParseCertificate := pc\<rparr>) fl inp
      = main env fl inp"
    using assms(1) r
    by (simp add: main_def startup_env loadRootCA_empty parseApiservers_env)
  ultimately show ?thesis by simp
qed

theorem empty_root_ca_absent_certificate_witness:
  "startup env0 (fl0\<lparr>flag_root_ca := []\<rparr>) = Inr (l0\<lparr>l_rootCA := []\<rparr>)
   \<and> flag_root_ca (fl0\<lparr>flag_root_ca := []\<rparr>) = []
   \<and> map (\<lambda>(n, c, us, lg). c) (constructed (fst (main env0 (fl0\<lparr>flag_root_ca := []\<rparr>) inp0)))
       = [\<lparr>NotBefore = - 62135596800, Signature = [], Bytes = []\<rparr>]"
proof -
  have f: "flag_root_ca (fl0\<lparr>flag_root_ca := []\<rparr>) = []" by simp
  from empty_root_ca_absent_certificate [OF startup0 f, of inp0] startup0 [of "[]"]
  show ?thesis
    by (simp add: zeroTime_def)
qed

subsection \<open>The endpoints handed to the peer\<close>

text \<open>
  C7. When \<open>main\<close> gets as far as the construction of the peer, the endpoint list given
  to \<^verbatim>\<open>newNodeBootstrapPeer\<close> holds the normalized form (parse, then \<open>String\<close>) of
  each \<^verbatim>\<open>-apiserver\<close> value that parses, the values taken sorted and without
  duplicates, as \<open>slice\<close> returns them. Each value that does not parse is reported in a
  log line with its error and left out, and the run goes on to the wait for the signal.
\<close>

theorem apiserver_urls_normalized:
  assumes "startup env fl = Inr l"
    and "ranges (l_apiservers l) (apiserversOrder inp)"
    and "loadRootCA env (l_nickname l @ ''> '') (l_rootCA l) = (t1, Inr certInfo)"
  shows "map (\<lambda>(n, c, us, lg). us) (constructed (fst (main env fl inp)))
      = [List.map_filter (\<lambda>v. case url_Parse env v of
            Inl err \<Rightarrow> None | Inr u \<Rightarrow> Some (URL_String env u)) (sort (remdups (flag_apiserver fl)))]
    \<and> parseFailures (fst (main env fl inp))
      = List.map_filter (\<lambda>v. case url_Parse env v of
            Inl err \<Rightarrow> Some (v, err) | Inr u \<Rightarrow> None) (sort (remdups (flag_apiserver fl)))
    \<and> snd (main env fl inp) \<in> {Blocked, Returned}"
proof -
  have s: "slice (apiserversOrder inp) = sort (remdups (flag_apiserver fl))"
    using assms(2) startup_Inr(1) [OF assms(1)] by (rule slice_of_set)
  note t = loadRootCA_trace [OF assms(3)]
  show ?thesis
    unfolding main_run [OF assms(1,3)] s
    by (simp add: constructed_simps parseFailures_simps t rejected_trace shutdown_trace
          split: option.splits)
qed

theorem apiserver_urls_normalized_witness:
  "startup env0 fl0 = Inr l0
   \<and> ranges (l_apiservers l0) (apiserversOrder inp0)
   \<and> flag_apiserver fl0 = [''https://b:6443'', ''%'', ''https://a:6443'', ''https://b:6443'']
   \<and> map (\<lambda>(n, c, us, lg). us) (constructed (fst (main env0 fl0 inp0)))
       = [[''https://a:6443'', ''https://b:6443'']]
   \<and> parseFailures (fst (main env0 fl0 inp0)) = [(''%'', ''invalid URL escape'')]
   \<and> snd (main env0 fl0 inp0) = Returned"
proof -
  have s: "sort (remdups (flag_apiserver fl0)) = [''%'', ''https://a:6443'', ''https://b:6443'']"
    by (simp add: fl0_def)
  from apiserver_urls_normalized [OF startup0_ca ranges0 load0_ca] startup0_ca ranges0 returned0
  show ?thesis
    by (simp add: s List.map_filter_simps) (simp add: env0_def fl0_def)
qed

subsection \<open>The gossip channel\<close>

text \<open>
  C8. In a run of \<open>main\<close> that reaches the wait for the signal, from the start of the
  program to its end there is one call that creates a gossip handle, on the channel
  \<open>''kubernetes-node-bootstrap-v0''\<close>, and one call of \<open>register\<close>, with that handle.
\<close>

theorem one_gossip_channel:
  assumes "snd (main env fl inp) = Blocked \<or> snd (main env fl inp) = Returned"
  shows "filter gossipCall (fst (main env fl inp))
      = [NewGossip ''kubernetes-node-bootstrap-v0'',
         Register (Gossip ''kubernetes-node-bootstrap-v0'')]"
proof (cases "startup env fl")
  case (Inl r)
  then show ?thesis
    using assms startup_Inl(4,5) [of env fl "fst r" "snd r"] by (simp add: main_stopped)
next
  case (Inr l)
  note st = this
  obtain t1 res where ld: "loadRootCA env (l_nickname l @ ''> '') (l_rootCA l) = (t1, res)"
    by (cases "loadRootCA env (l_nickname l @ ''> '') (l_rootCA l)")
  show ?thesis
  proof (cases res)
    case (Inl p)
    with ld have "main env fl inp = (t1, Panicked p)"
      by (simp add: main_panic [OF st])
    with assms show ?thesis by simp
  next
    case (Inr certInfo)
    with ld have ok: "loadRootCA env (l_nickname l @ ''> '') (l_rootCA l) = (t1, Inr certInfo)"
      by simp
    show ?thesis
      unfolding main_run [OF st ok]
      by (simp add: loadRootCA_trace [OF ok] rejected_trace shutdown_trace)
  qed
qed

theorem one_gossip_channel_witness:
  "snd (main env0 fl0 inp0) = Returned
   \<and> filter gossipCall (fst (main env0 fl0 inp0))
       = [NewGossip ''kubernetes-node-bootstrap-v0'',
          Register (Gossip ''kubernetes-node-bootstrap-v0'')]"
proof -
  have "snd (main env0 fl0 inp0) = Blocked \<or> snd (main env0 fl0 inp0) = Returned"
    using returned0 by simp
  from one_gossip_channel [OF this] returned0 show ?thesis by simp
qed

subsection \<open>Failures of the certificate loading\<close>



section \<open>Properties of the merge of the specification\<close>

lemma select_idem: "selectCertificate a a = a"
  by (cases a) simp_all

lemma select_comm: "selectCertificate a b = selectCertificate b a"
proof (cases a)
  case None
  then show ?thesis by (cases b) simp_all
next
  case (Some x)
  note sx = this
  show ?thesis
  proof (cases b)
    case None
    then show ?thesis by (simp add: sx)
  next
    case (Some y)
    then show ?thesis unfolding sx by (cases x; cases y) auto
  qed
qed

lemma select_assoc:
  "selectCertificate (selectCertificate a b) c = selectCertificate a (selectCertificate b c)"
  by (cases a; cases b; cases c) (auto split: if_splits)

lemma select_operand: "selectCertificate (Some x) (Some y) \<in> {Some x, Some y}"
  by simp

lemma select_latest:
  "\<exists>z. selectCertificate (Some x) (Some y) = Some z
       \<and> notBefore z = max (notBefore x) (notBefore y)"
  by auto

text \<open>
  C2. \<open>selectCertificate\<close> is absent only if both operands are absent, and with one
  operand absent it is the other. With both present it is one of the two, and its
  \<open>notBefore\<close> is the larger of theirs: it is the one with the larger \<open>notBefore\<close>, and
  for equal \<open>notBefore\<close> the one with the greater signature. The result is the same in
  both orders of the arguments.
\<close>

theorem selectCertificate_rule:
  "(selectCertificate a b = None \<longleftrightarrow> a = None \<and> b = None)
   \<and> selectCertificate (Some x) None = Some x
   \<and> selectCertificate None (Some y) = Some y
   \<and> selectCertificate (Some x) (Some y) \<in> {Some x, Some y}
   \<and> (\<exists>z. selectCertificate (Some x) (Some y) = Some z
          \<and> notBefore z = max (notBefore x) (notBefore y))
   \<and> (notBefore y < notBefore x \<longrightarrow>
        selectCertificate (Some x) (Some y) = Some x \<and> selectCertificate (Some y) (Some x) = Some x)
   \<and> (notBefore x = notBefore y \<and> signature y < signature x \<longrightarrow>
        selectCertificate (Some x) (Some y) = Some x \<and> selectCertificate (Some y) (Some x) = Some x)
   \<and> selectCertificate a b = selectCertificate b a"
proof -
  have absent: "selectCertificate a b = None \<longleftrightarrow> a = None \<and> b = None"
    by (cases a; cases b) simp_all
  have one: "selectCertificate (Some x) None = Some x" "selectCertificate None (Some y) = Some y"
    by simp_all
  have later: "notBefore y < notBefore x \<longrightarrow>
      selectCertificate (Some x) (Some y) = Some x \<and> selectCertificate (Some y) (Some x) = Some x"
    by auto
  have tie: "notBefore x = notBefore y \<and> signature y < signature x \<longrightarrow>
      selectCertificate (Some x) (Some y) = Some x \<and> selectCertificate (Some y) (Some x) = Some x"
    by auto
  note operand = select_operand [of x y]
  note latest = select_latest [of x y]
  note order = select_comm [of a b]
  from absent one operand latest later tie order show ?thesis
    by blast
qed

theorem selectCertificate_rule_witness:
  "selectCertificate (Some \<lparr>notBefore = 1577836800, signature = ''b'', rawBytes = ''B''\<rparr>)
                     (Some \<lparr>notBefore = 1559347200, signature = ''c'', rawBytes = ''C''\<rparr>)
     = Some \<lparr>notBefore = 1577836800, signature = ''b'', rawBytes = ''B''\<rparr>
   \<and> selectCertificate (Some \<lparr>notBefore = 1559347200, signature = ''c'', rawBytes = ''C''\<rparr>)
                       (Some \<lparr>notBefore = 1577836800, signature = ''b'', rawBytes = ''B''\<rparr>)
     = Some \<lparr>notBefore = 1577836800, signature = ''b'', rawBytes = ''B''\<rparr>
   \<and> selectCertificate (Some \<lparr>notBefore = 1577836800, signature = ''b'', rawBytes = ''B''\<rparr>)
                       (Some \<lparr>notBefore = 1577836800, signature = ''ab'', rawBytes = ''A''\<rparr>)
     = Some \<lparr>notBefore = 1577836800, signature = ''b'', rawBytes = ''B''\<rparr>
   \<and> selectCertificate (Some \<lparr>notBefore = 1577836800, signature = ''ab'', rawBytes = ''A''\<rparr>)
                       (Some \<lparr>notBefore = 1577836800, signature = ''b'', rawBytes = ''B''\<rparr>)
     = Some \<lparr>notBefore = 1577836800, signature = ''b'', rawBytes = ''B''\<rparr>"
  using
    selectCertificate_rule [of None None
      "\<lparr>notBefore = 1577836800, signature = ''b'', rawBytes = ''B''\<rparr>"
      "\<lparr>notBefore = 1559347200, signature = ''c'', rawBytes = ''C''\<rparr>"]
    selectCertificate_rule [of None None
      "\<lparr>notBefore = 1577836800, signature = ''b'', rawBytes = ''B''\<rparr>"
      "\<lparr>notBefore = 1577836800, signature = ''ab'', rawBytes = ''A''\<rparr>"]
  by simp

text \<open>
  C1. \<open>merge\<close> is commutative, associative and idempotent, for all states.
\<close>

theorem merge_semilattice_laws:
  "merge a b = merge b a
   \<and> merge (merge a b) c = merge a (merge b c)
   \<and> merge a a = a"
proof -
  have comm: "merge a b = merge b a"
    by (simp add: merge_def select_comm [of "certificate a"] Un_commute)
  have assoc: "merge (merge a b) c = merge a (merge b c)"
    by (simp add: merge_def select_assoc Un_assoc)
  have idem: "merge a a = a"
    by (simp add: merge_def select_idem)
  from comm assoc idem show ?thesis by blast
qed

theorem merge_semilattice_laws_witness:
  "merge \<lparr>certificate = None, endpoints = {''x''}\<rparr> \<lparr>certificate = None, endpoints = {''y''}\<rparr>
     = \<lparr>certificate = None, endpoints = {''x'', ''y''}\<rparr>
   \<and> merge \<lparr>certificate = None, endpoints = {''y''}\<rparr> \<lparr>certificate = None, endpoints = {''x''}\<rparr>
     = \<lparr>certificate = None, endpoints = {''x'', ''y''}\<rparr>
   \<and> merge \<lparr>certificate = Some \<lparr>notBefore = 1577836800, signature = ''b'', rawBytes = ''B''\<rparr>,
             endpoints = {''https://b:6443''}\<rparr>
           \<lparr>certificate = Some \<lparr>notBefore = 1559347200, signature = ''c'', rawBytes = ''C''\<rparr>,
             endpoints = {''https://c:6443''}\<rparr>
     = merge \<lparr>certificate = Some \<lparr>notBefore = 1559347200, signature = ''c'', rawBytes = ''C''\<rparr>,
               endpoints = {''https://c:6443''}\<rparr>
             \<lparr>certificate = Some \<lparr>notBefore = 1577836800, signature = ''b'', rawBytes = ''B''\<rparr>,
               endpoints = {''https://b:6443''}\<rparr>"
proof -
  have x: "merge \<lparr>certificate = None, endpoints = {''x''}\<rparr> \<lparr>certificate = None, endpoints = {''y''}\<rparr>
     = \<lparr>certificate = None, endpoints = {''x'', ''y''}\<rparr>"
    by (auto simp: merge_def)
  from x merge_semilattice_laws
    [of "\<lparr>certificate = None, endpoints = {''x''}\<rparr>" "\<lparr>certificate = None, endpoints = {''y''}\<rparr>"]
    merge_semilattice_laws
    [of "\<lparr>certificate = Some \<lparr>notBefore = 1577836800, signature = ''b'', rawBytes = ''B''\<rparr>,
           endpoints = {''https://b:6443''}\<rparr>"
        "\<lparr>certificate = Some \<lparr>notBefore = 1559347200, signature = ''c'', rawBytes = ''C''\<rparr>,
           endpoints = {''https://c:6443''}\<rparr>"]
  show ?thesis by metis
qed

end
